theory Spec2Isabelle
  imports Main
begin

section \<open>JavaScript strings\<close>

text \<open>
  A JavaScript string is a sequence of UTF-16 code units. It is modelled as the list of
  its code units, each a natural number below 65536, so that the Chinese literals of the
  source can be written out and \<open>length\<close> counts what \<open>String.length\<close> counts.
  \<open>asc\<close> turns an ASCII literal into such a string.
\<close>

type_synonym jsstring = "nat list"

definition asc :: "string \<Rightarrow> jsstring" where
  "asc s = map of_char s"

text \<open>\<open>a || b\<close> on \<open>string | null | undefined\<close>: the empty string is falsy too.\<close>

fun truthy :: "jsstring option \<Rightarrow> bool" where
  "truthy None = False"
| "truthy (Some []) = False"
| "truthy (Some (c # cs)) = True"

definition js_or :: "jsstring option \<Rightarrow> jsstring option \<Rightarrow> jsstring option" where
  "js_or a b = (if truthy a then a else b)"

text \<open>\<open>s.startsWith(p)\<close>\<close>

fun startsWith :: "jsstring \<Rightarrow> jsstring \<Rightarrow> bool" where
  "startsWith s [] = True"
| "startsWith [] (p # ps) = False"
| "startsWith (c # cs) (p # ps) = (c = p \<and> startsWith cs ps)"

text \<open>\<open>s.includes(p)\<close> on strings: \<open>p\<close> occurs in \<open>s\<close> as a substring.\<close>

fun includes_str :: "jsstring \<Rightarrow> jsstring \<Rightarrow> bool" where
  "includes_str [] p = (p = [])"
| "includes_str (c # cs) p = (startsWith (c # cs) p \<or> includes_str cs p)"

text \<open>
  \<open>s.split(sep)\<close> for a separator of one code unit: the result is never empty
  (\<open>''''.split('.')\<close> is \<open>['''']\<close>).
\<close>

fun split_on :: "nat \<Rightarrow> jsstring \<Rightarrow> jsstring list" where
  "split_on sep [] = [[]]"
| "split_on sep (c # cs) =
     (if c = sep then [] # split_on sep cs
      else (case split_on sep cs of [] \<Rightarrow> [[c]] | w # ws \<Rightarrow> (c # w) # ws))"

text \<open>\<open>xs.pop()\<close> read for its value: the last element, \<open>undefined\<close> on an empty array.\<close>

fun pop :: "'a list \<Rightarrow> 'a option" where
  "pop [] = None"
| "pop [x] = Some x"
| "pop (x # y # ys) = pop (y # ys)"

text \<open>\<open>xs[i]\<close>: \<open>undefined\<close> out of range.\<close>

definition at_index :: "'a list \<Rightarrow> nat \<Rightarrow> 'a option" where
  "at_index xs i = (if i < length xs then Some (xs ! i) else None)"

text \<open>
  \<open>s.toLowerCase()\<close>. The letters A to Z move to a to z, and the Kelvin sign (U+212A) to
  k: these are the only code units whose lower case is ASCII. Every other code unit has a
  lower case outside ASCII; the model leaves it as it is, which this program cannot tell
  apart, since it compares lowered strings with ASCII literals only.
\<close>

definition lower_unit :: "nat \<Rightarrow> nat" where
  "lower_unit c = (if 65 \<le> c \<and> c \<le> 90 then c + 32 else if c = 8490 then 107 else c)"

definition toLowerCase :: "jsstring \<Rightarrow> jsstring" where
  "toLowerCase s = map lower_unit s"

text \<open>\<open>s.trim()\<close> strips white space and line terminators from both ends.\<close>

definition is_space :: "nat \<Rightarrow> bool" where
  "is_space c \<longleftrightarrow>
     (9 \<le> c \<and> c \<le> 13) \<or> c = 32 \<or> c = 160 \<or> c = 5760 \<or> (8192 \<le> c \<and> c \<le> 8202) \<or>
     c = 8232 \<or> c = 8233 \<or> c = 8239 \<or> c = 8287 \<or> c = 12288 \<or> c = 65279"

definition trim :: "jsstring \<Rightarrow> jsstring" where
  "trim s = rev (dropWhile is_space (rev (dropWhile is_space s)))"

text \<open>\<open>xs.join(sep)\<close>\<close>

fun join :: "jsstring \<Rightarrow> jsstring list \<Rightarrow> jsstring" where
  "join sep [] = []"
| "join sep [x] = x"
| "join sep (x # y # ys) = x @ sep @ join sep (y # ys)"

text \<open>The decimal digits of a natural number.\<close>

fun digits :: "nat \<Rightarrow> jsstring" where
  "digits n = (if n < 10 then [48 + n] else digits (n div 10) @ [48 + n mod 10])"

declare digits.simps [simp del]

text \<open>
  \<open>(size / 1024 / 1024).toFixed(1)\<close> for a file size in bytes. Dividing by 1024 is exact
  in binary floating point, and \<open>toFixed(1)\<close> picks the integer \<open>n\<close> with \<open>n / 10\<close>
  nearest to the quotient, the larger one on a tie; so \<open>n\<close> is \<open>size * 10 / 2^20\<close>
  rounded half up. (Sizes are below \<open>2^53\<close>, where \<open>Number\<close> holds them exactly.)
\<close>

definition megabytes_toFixed1 :: "nat \<Rightarrow> jsstring" where
  "megabytes_toFixed1 sz =
     (let n = (10 * sz + 524288) div 1048576
      in digits (n div 10) @ asc ''.'' @ digits (n mod 10))"

section \<open>types.ts\<close>

datatype TargetFormat =
  JSON | XML | CSV | MARKDOWN | HTML | LATEX | SQL | YAML | DOCX | PLAIN_TEXT | MERMAID

text \<open>The string value of each enum member, as a template literal interpolates it.\<close>

fun format_value :: "TargetFormat \<Rightarrow> jsstring" where
  "format_value JSON = asc ''JSON''"
| "format_value XML = asc ''XML''"
| "format_value CSV = asc ''CSV''"
| "format_value MARKDOWN = asc ''Markdown''"
| "format_value HTML = asc ''HTML''"
| "format_value LATEX = asc ''LaTeX''"
| "format_value SQL = asc ''SQL''"
| "format_value YAML = asc ''YAML''"
| "format_value DOCX = asc ''DOCX (Word'' @ [0x6587, 0x6863] @ asc '')''"
| "format_value PLAIN_TEXT = [0x7EAF, 0x6587, 0x672C]"
| "format_value MERMAID = asc ''Mermaid '' @ [0x56FE, 0x8868]"

datatype ConversionStatus = Idle | Processing | Success | Error

datatype InputMode = TextMode | FileMode

text \<open>The fields of a browser \<open>File\<close> that the program reads.\<close>

record File =
  file_name :: jsstring
  file_size :: nat
  file_type :: jsstring

record BatchFileItem =
  item_id :: jsstring
  item_file :: File
  item_status :: ConversionStatus
  item_result :: "jsstring option"
  item_error :: "jsstring option"

record ConversionState =
  inputMode :: InputMode
  inputText :: jsstring
  batchFiles :: "BatchFileItem list"
  activeFileId :: "jsstring option"
  targetFormat :: TargetFormat
  status :: ConversionStatus
  textResult :: jsstring
  error :: "jsstring option"
  additionalInstructions :: jsstring
  customFilename :: jsstring

definition SUPPORTED_FILE_TYPES :: "jsstring list" where
  "SUPPORTED_FILE_TYPES =
     [asc ''image/png'', asc ''image/jpeg'', asc ''image/webp'', asc ''image/heic'',
      asc ''application/pdf'', asc ''text/plain'', asc ''text/csv'', asc ''text/html'',
      asc ''application/json'', asc ''text/markdown'', asc ''text/x-yaml'',
      asc ''application/vnd.openxmlformats-officedocument.wordprocessingml.document'']"

section \<open>The App component: state operations\<close>

text \<open>The state the component starts with.\<close>

definition initial_state :: ConversionState where
  "initial_state =
     \<lparr>inputMode = TextMode, inputText = [], batchFiles = [], activeFileId = None,
      targetFormat = JSON, status = Idle, textResult = [], error = None,
      additionalInstructions = [], customFilename = []\<rparr>"

definition handleInputModeChange :: "InputMode \<Rightarrow> ConversionState \<Rightarrow> ConversionState" where
  "handleInputModeChange m prev = prev\<lparr>inputMode := m, error := None\<rparr>"

text \<open>The \<open>onChange\<close> handler of the input textarea.\<close>

definition setInputText :: "jsstring \<Rightarrow> ConversionState \<Rightarrow> ConversionState" where
  "setInputText v prev = prev\<lparr>inputText := v, error := None\<rparr>"

text \<open>The \<open>onClick\<close> handler of a target format button.\<close>

definition setTarget :: "TargetFormat \<Rightarrow> ConversionState \<Rightarrow> ConversionState" where
  "setTarget fmt prev = prev\<lparr>targetFormat := fmt\<rparr>"

text \<open>The \<open>onChange\<close> handler of the instructions input.\<close>

definition setInstructions :: "jsstring \<Rightarrow> ConversionState \<Rightarrow> ConversionState" where
  "setInstructions v prev = prev\<lparr>additionalInstructions := v\<rparr>"

text \<open>The \<open>onChange\<close> handler of the file name input.\<close>

definition setCustomFilename :: "jsstring \<Rightarrow> ConversionState \<Rightarrow> ConversionState" where
  "setCustomFilename v prev = prev\<lparr>customFilename := v\<rparr>"

subsection \<open>processFiles\<close>

definition MAX_SIZE :: nat where
  "MAX_SIZE = 5 * 1024 * 1024"

definition ACCEPT_STRING :: jsstring where
  "ACCEPT_STRING =
     join (asc '','')
       (SUPPORTED_FILE_TYPES @
        [asc ''.pdf'', asc ''.docx'', asc ''.doc'', asc ''.csv'', asc ''.txt'', asc ''.md'',
         asc ''.json'', asc ''.xml'', asc ''.html'', asc ''.yaml'', asc ''.yml''])"

text \<open>
  \<open>'.' + file.name.split('.').pop()?.toLowerCase()\<close>: were \<open>pop()\<close> undefined, the
  concatenation would spell it out.
\<close>

definition fileExt :: "File \<Rightarrow> jsstring" where
  "fileExt file =
     asc ''.'' @ (case pop (split_on 46 (file_name file)) of
                    None \<Rightarrow> asc ''undefined''
                  | Some e \<Rightarrow> toLowerCase e)"

definition isValidMime :: "File \<Rightarrow> bool" where
  "isValidMime file =
     list_ex (\<lambda>type. file_type file = type \<or> startsWith (file_type file) type)
       SUPPORTED_FILE_TYPES"

text \<open>\<open>ACCEPT_STRING\<close> is a string, so \<open>includes\<close> looks for a substring of it.\<close>

definition isValidExt :: "File \<Rightarrow> bool" where
  "isValidExt file = includes_str ACCEPT_STRING (fileExt file)"

definition too_large :: "File \<Rightarrow> bool" where
  "too_large file \<longleftrightarrow> file_size file > MAX_SIZE"

definition bad_type :: "File \<Rightarrow> bool" where
  "bad_type file \<longleftrightarrow> \<not> isValidMime file \<and> \<not> isValidExt file \<and> file_type file \<noteq> []"

definition too_large_message :: "File \<Rightarrow> jsstring" where
  "too_large_message file =
     [0x6587, 0x4EF6, 0x20] @ file_name file @ [0x20, 0x8FC7, 0x5927, 0x20, 0x28] @
     megabytes_toFixed1 (file_size file) @
     [0x4D, 0x42, 0x29, 0x3002, 0x8BF7, 0x4E0A, 0x4F20, 0x20, 0x35, 0x4D, 0x42, 0x20,
      0x4EE5, 0x5185, 0x7684, 0x6587, 0x4EF6, 0x3002]"

definition bad_type_message :: "File \<Rightarrow> jsstring" where
  "bad_type_message file =
     [0x4E0D, 0x652F, 0x6301, 0x7684, 0x6587, 0x4EF6, 0x7C7B, 0x578B, 0x3A, 0x20] @
     file_name file"

text \<open>
  The body of \<open>Array.from(files).forEach\<close>, threading \<open>newFiles\<close> and \<open>errorMsg\<close>.
  \<open>generateId\<close> draws a random identifier; the model takes the draws as a function of
  how many were drawn before in this call.
\<close>

fun forEach_file ::
  "(nat \<Rightarrow> jsstring) \<Rightarrow> File list \<Rightarrow> BatchFileItem list \<times> jsstring option \<Rightarrow>
   BatchFileItem list \<times> jsstring option" where
  "forEach_file generateId [] acc = acc"
| "forEach_file generateId (file # files) (newFiles, errorMsg) =
     (if too_large file then
        forEach_file generateId files (newFiles, Some (too_large_message file))
      else if bad_type file then
        forEach_file generateId files (newFiles, Some (bad_type_message file))
      else
        forEach_file generateId files
          (newFiles @
             [\<lparr>item_id = generateId (length newFiles), item_file = file, item_status = Idle,
               item_result = None, item_error = None\<rparr>],
           errorMsg))"

definition processFiles ::
  "(nat \<Rightarrow> jsstring) \<Rightarrow> File list \<Rightarrow> ConversionState \<Rightarrow> ConversionState" where
  "processFiles generateId files prev =
     (case forEach_file generateId files ([], None) of
        (newFiles, errorMsg) \<Rightarrow>
          prev\<lparr>batchFiles := batchFiles prev @ newFiles,
               activeFileId :=
                 js_or (activeFileId prev)
                   (case newFiles of [] \<Rightarrow> activeFileId prev | f # fs \<Rightarrow> Some (item_id f)),
               error := js_or errorMsg (error prev)\<rparr>)"

subsection \<open>removeFile and selecting a file\<close>



section \<open>services/geminiService.ts\<close>

definition ext_of :: "File \<Rightarrow> jsstring option" where
  "ext_of file = map_option toLowerCase (pop (split_on 46 (file_name file)))"

definition getMimeType :: "File \<Rightarrow> jsstring" where
  "getMimeType file =
     (if file_type file \<noteq> [] \<and> file_type file \<noteq> asc ''application/octet-stream'' \<and>
         file_type file \<noteq> []
      then file_type file
      else
        let ext = ext_of file in
        if ext = Some (asc ''pdf'') then asc ''application/pdf''
        else if ext = Some (asc ''csv'') then asc ''text/csv''
        else if ext = Some (asc ''json'') then asc ''application/json''
        else if ext = Some (asc ''xml'') then asc ''text/xml''
        else if ext = Some (asc ''html'') then asc ''text/html''
        else if ext = Some (asc ''md'') then asc ''text/markdown''
        else if ext = Some (asc ''txt'') then asc ''text/plain''
        else if ext = Some (asc ''doc'') \<or> ext = Some (asc ''docx'') then
          asc ''application/vnd.openxmlformats-officedocument.wordprocessingml.document''
        else if ext = Some (asc ''png'') then asc ''image/png''
        else if ext = Some (asc ''jpg'') \<or> ext = Some (asc ''jpeg'') then asc ''image/jpeg''
        else if ext = Some (asc ''webp'') then asc ''image/webp''
        else if ext = Some (asc ''heic'') then asc ''image/heic''
        else asc ''text/plain'')"

definition textMimes :: "jsstring list" where
  "textMimes =
     [asc ''text/'', asc ''application/json'', asc ''application/xml'',
      asc ''application/javascript'', asc ''application/x-yaml'', asc ''application/sql'',
      asc ''application/csv'']"

definition textExts :: "jsstring list" where
  "textExts =
     [asc ''txt'', asc ''md'', asc ''csv'', asc ''json'', asc ''xml'', asc ''html'',
      asc ''css'', asc ''js'', asc ''yaml'', asc ''yml'', asc ''sql'', asc ''ts'', asc ''tsx'',
      asc ''py'']"

definition isTextFile :: "File \<Rightarrow> bool" where
  "isTextFile file =
     (let mimeType = getMimeType file in
      if list_ex (\<lambda>t. startsWith mimeType t) textMimes then True
      else (case ext_of file of
              None \<Rightarrow> False
            | Some ext \<Rightarrow> ext \<noteq> [] \<and> ext \<in> set textExts))"

text \<open>
  A value caught by \<open>catch (error: any)\<close>: what \<open>error.message\<close> and
  \<open>error.toString()\<close> give.
\<close>

record thrown =
  thrown_message :: "jsstring option"
  thrown_toString :: jsstring

text \<open>\<open>new Error(msg)\<close>\<close>

definition new_Error :: "jsstring \<Rightarrow> thrown" where
  "new_Error msg =
     \<lparr>thrown_message = Some msg,
      thrown_toString = (if msg = [] then asc ''Error'' else asc ''Error: '' @ msg)\<rparr>"

datatype part = TextPart jsstring | InlineData "jsstring option" jsstring

text \<open>
  What \<open>generateContent\<close> is called with. The model identifier and the temperature are
  constants, and the system instruction and the response type are built from the target
  format and \<open>isPdfInput\<close> alone, so the request is given by the parts and these two.
\<close>

record request =
  req_parts :: "part list"
  req_targetFormat :: TargetFormat
  req_isPdfInput :: bool

text \<open>
  The outside world of one call of \<open>convertContent\<close>: what \<open>FileReader\<close> reads (the
  text, or the data URL, \<open>null\<close> when there is none, or the event of \<open>onerror\<close>) and
  what the model answers (\<open>response.text\<close>, which may be undefined, or the error thrown).
\<close>

record env =
  readAsText :: "File \<Rightarrow> thrown + jsstring"
  readAsDataURL :: "File \<Rightarrow> thrown + jsstring option"
  generateContent :: "request \<Rightarrow> thrown + jsstring option"

definition readTextFile :: "env \<Rightarrow> File \<Rightarrow> thrown + jsstring" where
  "readTextFile e file = readAsText e file"

definition cannot_read :: jsstring where
  "cannot_read = [0x65E0, 0x6CD5, 0x8BFB, 0x53D6, 0x6587, 0x4EF6]"

definition fileToGenerativePart :: "env \<Rightarrow> File \<Rightarrow> thrown + part" where
  "fileToGenerativePart e file =
     (case readAsDataURL e file of
        Inl ev \<Rightarrow> Inl ev
      | Inr result \<Rightarrow>
          (case result of
             None \<Rightarrow> Inl (new_Error cannot_read)
           | Some [] \<Rightarrow> Inl (new_Error cannot_read)
           | Some (c # cs) \<Rightarrow>
               Inr (InlineData (at_index (split_on 44 (c # cs)) 1) (getMimeType file))))"

datatype input = TextInput jsstring | FileInput File

definition instructions_text :: "jsstring \<Rightarrow> jsstring" where
  "instructions_text instructions =
     [10, 10] @ asc ''Additional Instructions & Rules:'' @ [10] @ instructions"

text \<open>\<open>parts.length === 1 && 'inlineData' in parts[0]\<close>\<close>

fun single_inline :: "part list \<Rightarrow> bool" where
  "single_inline [InlineData d m] = True"
| "single_inline ps = False"

text \<open>The first \<open>if\<close> of \<open>convertContent\<close>: the parts, the prompt text and \<open>isPdfInput\<close>.\<close>

definition content_parts ::
  "env \<Rightarrow> input \<Rightarrow> TargetFormat \<Rightarrow> thrown + (part list \<times> jsstring \<times> bool)" where
  "content_parts e inp fmt =
     (case inp of
        FileInput file \<Rightarrow>
          (if isTextFile file then
             (case readTextFile e file of
                Inl ev \<Rightarrow> Inl ev
              | Inr textContent \<Rightarrow>
                  (let promptText =
                         asc ''Convert the following file content to '' @ format_value fmt @
                         asc ''. Filename: '' @ file_name file @ [10, 10] @ asc ''Content:'' @
                         [10] @ textContent
                   in Inr ([TextPart promptText], promptText, False)))
           else
             (case fileToGenerativePart e file of
                Inl ev \<Rightarrow> Inl ev
              | Inr filePart \<Rightarrow>
                  (let promptText =
                         asc ''Analyze the content of this file and convert it to '' @
                         format_value fmt @ asc ''.''
                   in Inr ([filePart], promptText,
                           (case filePart of
                              InlineData d m \<Rightarrow> m = asc ''application/pdf''
                            | TextPart t \<Rightarrow> False)))))
      | TextInput text \<Rightarrow>
          (let promptText =
                 asc ''Convert the following text content to '' @ format_value fmt @
                 asc '':'' @ [10, 10] @ text
           in Inr ([TextPart promptText], promptText, False)))"

text \<open>
  The second \<open>if\<close>: the instructions, and the prompt of a binary file.
  \<open>has_instructions\<close> is \<open>instructions && instructions.trim().length > 0\<close>.
\<close>

definition has_instructions :: "jsstring option \<Rightarrow> bool" where
  "has_instructions instructions =
     (case instructions of None \<Rightarrow> False | Some i \<Rightarrow> i \<noteq> [] \<and> length (trim i) > 0)"

definition add_instructions :: "part list \<Rightarrow> jsstring \<Rightarrow> jsstring option \<Rightarrow> part list" where
  "add_instructions parts promptText instructions =
     (if has_instructions instructions then
        (let i = (case instructions of None \<Rightarrow> [] | Some i \<Rightarrow> i) in
         if single_inline parts then parts @ [TextPart (promptText @ instructions_text i)]
         else parts @ [TextPart (instructions_text i)])
      else if single_inline parts then parts @ [TextPart promptText]
      else parts)"

definition build_request ::
  "env \<Rightarrow> input \<Rightarrow> TargetFormat \<Rightarrow> jsstring option \<Rightarrow> thrown + request" where
  "build_request e inp fmt instructions =
     (case content_parts e inp fmt of
        Inl ev \<Rightarrow> Inl ev
      | Inr (parts, promptText, isPdfInput) \<Rightarrow>
          Inr \<lparr>req_parts = add_instructions parts promptText instructions,
               req_targetFormat = fmt, req_isPdfInput = isPdfInput\<rparr>)"

definition no_content :: jsstring where
  "no_content = [0x672A, 0x751F, 0x6210, 0x4EFB, 0x4F55, 0x5185, 0x5BB9, 0x3002]"

definition transport_failure :: jsstring where
  "transport_failure =
     [0x6587, 0x4EF6, 0x8FC7, 0x5927, 0x5BFC, 0x81F4, 0x7F51, 0x7EDC, 0x4F20, 0x8F93, 0x5931,
      0x8D25, 0x3002, 0x867D, 0x7136, 0x6A21, 0x578B, 0x5F88, 0x5F3A, 0xFF0C, 0x4F46, 0x6D4F,
      0x89C8, 0x5668, 0x7AEF, 0x4F20, 0x8F93, 0x53D7, 0x9650, 0xFF0C, 0x8BF7, 0x5C1D, 0x8BD5,
      0x538B, 0x7F29, 0x20, 0x50, 0x44, 0x46, 0x20, 0x6216, 0x4F7F, 0x7528, 0x5C0F, 0x4E8E,
      0x20, 0x35, 0x4D, 0x42, 0x20, 0x7684, 0x6587, 0x4EF6, 0x3002]"

definition invalid_key :: jsstring where
  "invalid_key =
     asc ''API Key '' @ [0x914D, 0x7F6E, 0x65E0, 0x6548, 0x3002]"

definition conversion_failed :: jsstring where
  "conversion_failed =
     [0x8F6C, 0x6362, 0x5185, 0x5BB9, 0x5931, 0x8D25, 0xFF0C, 0x8BF7, 0x91CD, 0x8BD5, 0x3002]"

text \<open>\<open>a || d\<close> where \<open>d\<close> is a string literal.\<close>

fun or_str :: "jsstring option \<Rightarrow> jsstring \<Rightarrow> jsstring" where
  "or_str None d = d"
| "or_str (Some []) d = d"
| "or_str (Some (c # cs)) d = c # cs"

text \<open>\<open>error.message?.includes(p)\<close>, read as a condition.\<close>

definition message_includes :: "thrown \<Rightarrow> jsstring \<Rightarrow> bool" where
  "message_includes err p =
     (case thrown_message err of None \<Rightarrow> False | Some m \<Rightarrow> includes_str m p)"

text \<open>The \<open>catch\<close> block: the message of the \<open>Error\<close> that \<open>convertContent\<close> throws.\<close>

definition catch_message :: "thrown \<Rightarrow> jsstring" where
  "catch_message err =
     (if message_includes err (asc ''Rpc failed'') \<or>
         includes_str (thrown_toString err) (asc ''413'')
      then transport_failure
      else if message_includes err (asc ''API_KEY'') then invalid_key
      else or_str (thrown_message err) conversion_failed)"

text \<open>
  \<open>convertContent\<close> settles with the converted text (\<open>Inr\<close>) or throws an \<open>Error\<close>,
  given by its message (\<open>Inl\<close>).
\<close>

definition convertContent ::
  "env \<Rightarrow> input \<Rightarrow> TargetFormat \<Rightarrow> jsstring option \<Rightarrow> jsstring + jsstring" where
  "convertContent e inp fmt instructions =
     (case build_request e inp fmt instructions of
        Inl err \<Rightarrow> Inl (catch_message err)
      | Inr req \<Rightarrow>
          (case generateContent e req of
             Inl err \<Rightarrow> Inl (catch_message err)
           | Inr text \<Rightarrow> Inr (or_str text no_content)))"

section \<open>The App component: handleConvert\<close>

text \<open>
  One call of \<open>convertContent\<close> as \<open>handleConvert\<close> sees it: the converted text, or the
  message of the \<open>Error\<close> thrown. The first argument numbers the call (the loop index, 0
  in text mode), so that two calls with the same arguments may settle differently.
\<close>

type_synonym converter =
  "nat \<Rightarrow> input \<Rightarrow> TargetFormat \<Rightarrow> jsstring option \<Rightarrow> jsstring + jsstring"

text \<open>The converter of the application, in the worlds \<open>envs\<close> of the successive calls.\<close>

definition app_converter :: "(nat \<Rightarrow> env) \<Rightarrow> converter" where
  "app_converter envs i = convertContent (envs i)"

type_synonym call = "nat \<times> input \<times> TargetFormat \<times> jsstring option"

text \<open>
  A run of \<open>handleConvert\<close>: the current state, every state that \<open>setState\<close> has
  installed so far, oldest first, and the calls of \<open>convertContent\<close> made so far.
\<close>

record run =
  cur :: ConversionState
  history :: "ConversionState list"
  calls :: "call list"

definition setState :: "(ConversionState \<Rightarrow> ConversionState) \<Rightarrow> run \<Rightarrow> run" where
  "setState f r = r\<lparr>cur := f (cur r), history := history r @ [f (cur r)]\<rparr>"

definition log_call :: "call \<Rightarrow> run \<Rightarrow> run" where
  "log_call c r = r\<lparr>calls := calls r @ [c]\<rparr>"

definition start_run :: "ConversionState \<Rightarrow> run" where
  "start_run state = \<lparr>cur = state, history = [], calls = []\<rparr>"

text \<open>The three updates of the batch loop.\<close>

definition markProcessing :: "BatchFileItem \<Rightarrow> ConversionState \<Rightarrow> ConversionState" where
  "markProcessing fileItem prev =
     prev\<lparr>activeFileId := Some (item_id fileItem),
          batchFiles :=
            map (\<lambda>f. if item_id f = item_id fileItem
                      then f\<lparr>item_status := Processing, item_error := None\<rparr> else f)
              (batchFiles prev)\<rparr>"

definition markSuccess :: "BatchFileItem \<Rightarrow> jsstring \<Rightarrow> ConversionState \<Rightarrow> ConversionState" where
  "markSuccess fileItem result prev =
     prev\<lparr>batchFiles :=
            map (\<lambda>f. if item_id f = item_id fileItem
                      then f\<lparr>item_status := Success, item_result := Some result\<rparr> else f)
              (batchFiles prev)\<rparr>"

definition markError :: "BatchFileItem \<Rightarrow> jsstring \<Rightarrow> ConversionState \<Rightarrow> ConversionState" where
  "markError fileItem msg prev =
     prev\<lparr>batchFiles :=
            map (\<lambda>f. if item_id f = item_id fileItem
                      then f\<lparr>item_status := Error, item_error := Some msg\<rparr> else f)
              (batchFiles prev)\<rparr>"

text \<open>
  The body of the \<open>for\<close> loop over \<open>filesToProcess\<close>, the queue as
  \<open>handleConvert\<close> found it: \<open>state\<close> is the state of the closure, \<open>i\<close> the loop
  index and \<open>fileItem\<close> is \<open>filesToProcess[i]\<close>.
\<close>

definition loop_body :: "converter \<Rightarrow> ConversionState \<Rightarrow> nat \<Rightarrow> BatchFileItem \<Rightarrow> run \<Rightarrow> run" where
  "loop_body convert state i fileItem r =
     (if item_status fileItem = Success then r
      else
        let r1 = setState (markProcessing fileItem) r;
            r2 = log_call (i, FileInput (item_file fileItem), targetFormat state,
                           Some (additionalInstructions state)) r1
        in case convert i (FileInput (item_file fileItem)) (targetFormat state)
                  (Some (additionalInstructions state)) of
             Inr result \<Rightarrow> setState (markSuccess fileItem result) r2
           | Inl msg \<Rightarrow> setState (markError fileItem msg) r2)"

fun batchLoop :: "converter \<Rightarrow> ConversionState \<Rightarrow> nat \<Rightarrow> BatchFileItem list \<Rightarrow> run \<Rightarrow> run" where
  "batchLoop convert state i [] r = r"
| "batchLoop convert state i (fileItem # rest) r =
     batchLoop convert state (Suc i) rest (loop_body convert state i fileItem r)"

definition enter_text :: jsstring where
  "enter_text =
     [0x8BF7, 0x8F93, 0x5165, 0x9700, 0x8981, 0x8F6C, 0x6362, 0x7684, 0x6587, 0x672C, 0x3002]"

definition select_a_file :: jsstring where
  "select_a_file =
     [0x8BF7, 0x81F3, 0x5C11, 0x9009, 0x62E9, 0x4E00, 0x4E2A, 0x6587, 0x4EF6, 0x3002]"

definition unexpected_error :: jsstring where
  "unexpected_error = [0x53D1, 0x751F, 0x610F, 0x5916, 0x9519, 0x8BEF, 0x3002]"

definition handleConvert :: "converter \<Rightarrow> ConversionState \<Rightarrow> run" where
  "handleConvert convert state =
     (if inputMode state = TextMode \<and> trim (inputText state) = [] then
        setState (\<lambda>prev. prev\<lparr>error := Some enter_text\<rparr>) (start_run state)
      else if inputMode state = FileMode \<and> length (batchFiles state) = 0 then
        setState (\<lambda>prev. prev\<lparr>error := Some select_a_file\<rparr>) (start_run state)
      else
        let r0 = setState (\<lambda>prev. prev\<lparr>status := Processing, error := None\<rparr>) (start_run state)
        in
          if inputMode state = TextMode then
            (let r1 = log_call (0, TextInput (inputText state), targetFormat state,
                                Some (additionalInstructions state)) r0
             in case convert 0 (TextInput (inputText state)) (targetFormat state)
                       (Some (additionalInstructions state)) of
                  Inr result \<Rightarrow>
                    setState (\<lambda>prev. prev\<lparr>status := Success, textResult := result\<rparr>) r1
                | Inl msg \<Rightarrow>
                    setState (\<lambda>prev. prev\<lparr>status := Error,
                                            error := Some (or_str (Some msg) unexpected_error)\<rparr>) r1)
          else
            (let filesToProcess = batchFiles state
             in setState (\<lambda>prev. prev\<lparr>status := Idle\<rparr>)
                  (batchLoop convert state 0 filesToProcess r0)))"

section \<open>Predicates of the specification\<close>

text \<open>A candidate is rejected when one of the two checks of \<open>processFiles\<close> stops it.\<close>

definition rejected :: "File \<Rightarrow> bool" where
  "rejected file \<longleftrightarrow> too_large file \<or> bad_type file"

definition rejection_message :: "File \<Rightarrow> jsstring" where
  "rejection_message file =
     (if too_large file then too_large_message file else bad_type_message file)"

text \<open>The queue item that \<open>processFiles\<close> pushes for an admitted file.\<close>

definition new_item :: "jsstring \<Rightarrow> File \<Rightarrow> BatchFileItem" where
  "new_item ident file =
     \<lparr>item_id = ident, item_file = file, item_status = Idle, item_result = None,
      item_error = None\<rparr>"



text \<open>
  A queue item is consistent when its result is set exactly in the state succeeded and its
  error exactly in the state failed.
\<close>

definition item_consistent :: "BatchFileItem \<Rightarrow> bool" where
  "item_consistent f =
     (case item_status f of
        Idle \<Rightarrow> item_result f = None \<and> item_error f = None
      | Processing \<Rightarrow> item_result f = None \<and> item_error f = None
      | Success \<Rightarrow> item_result f \<noteq> None \<and> item_error f = None
      | Error \<Rightarrow> item_result f = None \<and> item_error f \<noteq> None)"

definition queue_consistent :: "ConversionState \<Rightarrow> bool" where
  "queue_consistent s = list_all item_consistent (batchFiles s)"

text \<open>
  What a run of the batch makes of the item at index \<open>k\<close> of the queue: an item that
  has succeeded is left alone, any other takes the outcome of its call.
\<close>

definition settled :: "converter \<Rightarrow> ConversionState \<Rightarrow> nat \<Rightarrow> BatchFileItem \<Rightarrow> BatchFileItem" where
  "settled convert state k f =
     (if item_status f = Success then f
      else (case convert k (FileInput (item_file f)) (targetFormat state)
                   (Some (additionalInstructions state)) of
              Inr result \<Rightarrow>
                f\<lparr>item_status := Success, item_result := Some result, item_error := None\<rparr>
            | Inl msg \<Rightarrow> f\<lparr>item_status := Error, item_error := Some msg\<rparr>))"

text \<open>A succeeded item carries a text that is not empty.\<close>

definition has_text :: "BatchFileItem \<Rightarrow> bool" where
  "has_text f \<longleftrightarrow> (item_status f = Success \<longrightarrow> truthy (item_result f))"

fun is_inline :: "part \<Rightarrow> bool" where
  "is_inline (InlineData d m) = True"
| "is_inline (TextPart t) = False"

section \<open>Sample inputs\<close>

definition big_pdf :: File where
  "big_pdf = \<lparr>file_name = asc ''scan.pdf'', file_size = 6291456,
              file_type = asc ''application/pdf''\<rparr>"

definition notes_txt :: File where
  "notes_txt = \<lparr>file_name = asc ''notes.txt'', file_size = 120, file_type = asc ''text/plain''\<rparr>"

definition setup_exe :: File where
  "setup_exe = \<lparr>file_name = asc ''setup.exe'', file_size = 2048,
                file_type = asc ''application/x-msdownload''\<rparr>"


definition ids :: "nat \<Rightarrow> jsstring" where
  "ids k = asc ''id'' @ digits k"

text \<open>A converter that fails at the odd calls.\<close>

definition odd_fails :: converter where
  "odd_fails i inp fmt instructions =
     (if even i then Inr (asc ''converted'') else Inl (asc ''boom''))"

text \<open>A converter that always succeeds.\<close>

definition always_ok :: converter where
  "always_ok i inp fmt instructions = Inr (asc ''again'')"

text \<open>A queue of three pending files, and the same queue after a pass with one failure.\<close>

definition queued :: ConversionState where
  "queued =
     initial_state
       \<lparr>inputMode := FileMode,
        batchFiles := [new_item (asc ''a'') notes_txt, new_item (asc ''b'') notes_txt,
                       new_item (asc ''c'') notes_txt],
        activeFileId := Some (asc ''a'')\<rparr>"

definition after_pass :: ConversionState where
  "after_pass =
     initial_state
       \<lparr>inputMode := FileMode,
        batchFiles :=
          [(new_item (asc ''a'') notes_txt)
             \<lparr>item_status := Success, item_result := Some (asc ''converted'')\<rparr>,
           (new_item (asc ''b'') notes_txt)
             \<lparr>item_status := Error, item_error := Some (asc ''boom'')\<rparr>,
           new_item (asc ''c'') notes_txt],
        activeFileId := Some (asc ''c'')\<rparr>"

text \<open>The state in which the first item of \<open>queued\<close> is in progress.\<close>

definition first_processing :: ConversionState where
  "first_processing =
     markProcessing (new_item (asc ''a'') notes_txt)
       (queued\<lparr>status := Processing, error := None\<rparr>)"


text \<open>
  Two worlds for \<open>convertContent\<close>: in both every file reads well; in the first the
  model answers with no text, in the second with a line of CSV.
\<close>

definition silent_env :: env where
  "silent_env =
     \<lparr>readAsText = (\<lambda>f. Inr (asc ''a;b'')),
      readAsDataURL = (\<lambda>f. Inr (Some (asc ''data:application/pdf;base64,JVBERi0=''))),
      generateContent = (\<lambda>req. Inr None)\<rparr>"

definition csv_env :: env where
  "csv_env =
     \<lparr>readAsText = (\<lambda>f. Inr (asc ''a;b'')),
      readAsDataURL = (\<lambda>f. Inr (Some (asc ''data:application/pdf;base64,JVBERi0=''))),
      generateContent = (\<lambda>req. Inr (Some (asc ''a,b'')))\<rparr>"

definition small_pdf :: File where
  "small_pdf = \<lparr>file_name = asc ''scan.PDF'', file_size = 6, file_type = []\<rparr>"

section \<open>Properties of the setters\<close>

text \<open>
  C8 (as the code has it). Editing the input text replaces \<open>inputText\<close> and clears the
  error indicator. Choosing a target format and editing the instructions replace their own
  field and nothing else: the error indicator stays as it was.
\<close>

theorem setters_replace_own_field:
  "setInputText v s = s\<lparr>inputText := v, error := None\<rparr> \<and>
   inputText (setInputText v s) = v \<and> error (setInputText v s) = None \<and>
   targetFormat (setInputText v s) = targetFormat s \<and>
   additionalInstructions (setInputText v s) = additionalInstructions s \<and>
   batchFiles (setInputText v s) = batchFiles s \<and>
   targetFormat (setTarget fmt s) = fmt \<and> error (setTarget fmt s) = error s \<and>
   setTarget fmt s = s\<lparr>targetFormat := fmt\<rparr> \<and>
   additionalInstructions (setInstructions w s) = w \<and>
   error (setInstructions w s) = error s \<and>
   setInstructions w s = s\<lparr>additionalInstructions := w\<rparr>"
  by (simp add: setInputText_def setTarget_def setInstructions_def)

text \<open>
  C8 (as stated) fails: with an error pending, choosing a target format leaves it pending,
  and so does editing the instructions.
\<close>

theorem setTarget_keeps_error_counterexample:
  "error (setTarget CSV (initial_state\<lparr>error := Some select_a_file\<rparr>)) \<noteq> None \<and>
   error (setInstructions (asc ''keep tables'') (initial_state\<lparr>error := Some select_a_file\<rparr>))
     \<noteq> None"
  by (simp add: setTarget_def setInstructions_def initial_state_def)

section \<open>Admission of files\<close>

lemma forEach_file_eq:
  "forEach_file gen files (acc, e) =
     (acc @ map (\<lambda>(k, f). new_item (gen k) f)
              (List.enumerate (length acc) (filter (\<lambda>f. \<not> rejected f) files)),
      (if list_ex rejected files
       then Some (rejection_message (last (filter rejected files))) else e))"
proof (induction files arbitrary: acc e)
  case Nil
  then show ?case by simp
next
  case (Cons x xs)
  show ?case
  proof (cases "too_large x")
    case True
    then show ?thesis
      by (simp add: Cons.IH rejected_def rejection_message_def list_ex_iff filter_empty_conv)
  next
    case nl: False
    show ?thesis
    proof (cases "bad_type x")
      case True
      with nl show ?thesis
        by (simp add: Cons.IH rejected_def rejection_message_def list_ex_iff filter_empty_conv)
    next
      case False
      with nl show ?thesis
        by (simp add: Cons.IH rejected_def new_item_def list_ex_iff)
    qed
  qed
qed

lemma truthy_rejection: "truthy (Some (rejection_message f))"
  by (simp add: rejection_message_def too_large_message_def bad_type_message_def)

lemma processFiles_eq:
  "processFiles gen files prev =
     prev\<lparr>batchFiles := batchFiles prev @
            map (\<lambda>(k, f). new_item (gen k) f)
              (List.enumerate 0 (filter (\<lambda>f. \<not> rejected f) files)),
          activeFileId :=
            js_or (activeFileId prev)
              (case filter (\<lambda>f. \<not> rejected f) files of
                 [] \<Rightarrow> activeFileId prev
               | f # fs \<Rightarrow> Some (gen 0)),
          error :=
            (if list_ex rejected files
             then Some (rejection_message (last (filter rejected files)))
             else error prev)\<rparr>"
  by (simp add: processFiles_def forEach_file_eq js_or_def truthy_rejection new_item_def
      split: list.splits)

lemma item_file_new_items:
  "map item_file (map (\<lambda>(k, f). new_item (gen k) f) (List.enumerate n xs)) = xs"
  by (induction xs arbitrary: n) (simp_all add: new_item_def)

lemma rejected_big_pdf: "rejected big_pdf"
  by (simp add: rejected_def too_large_def big_pdf_def MAX_SIZE_def)

lemma accept_string_eval:
  "ACCEPT_STRING = asc ''image/png,image/jpeg,image/webp,image/heic,application/pdf,text/plain,text/csv,text/html,application/json,text/markdown,text/x-yaml,application/vnd.openxmlformats-officedocument.wordprocessingml.document,.pdf,.docx,.doc,.csv,.txt,.md,.json,.xml,.html,.yaml,.yml''"
  by (simp add: ACCEPT_STRING_def SUPPORTED_FILE_TYPES_def asc_def)

lemma not_rejected_notes: "\<not> rejected notes_txt"
  by (simp add: rejected_def too_large_def bad_type_def notes_txt_def MAX_SIZE_def
      isValidMime_def SUPPORTED_FILE_TYPES_def asc_def)

lemma rejected_setup_exe: "rejected setup_exe"
  by (simp add: rejected_def too_large_def bad_type_def setup_exe_def MAX_SIZE_def
      isValidMime_def isValidExt_def fileExt_def toLowerCase_def lower_unit_def
      accept_string_eval SUPPORTED_FILE_TYPES_def asc_def)


lemma too_large_examples: "too_large big_pdf" "\<not> too_large setup_exe"
  by (simp_all add: too_large_def big_pdf_def setup_exe_def MAX_SIZE_def)

text \<open>
  C3. \<open>processFiles\<close> checks every candidate against the ceiling of 5 MiB
  (5242880 bytes) and against the type and extension lists. The queue becomes the old
  queue followed by one fresh item for each candidate that passed, in the order given; a
  candidate that failed a check is not appended and does not stop the others. When some
  candidate was rejected, the state's error is the (non-empty) rejection message of the
  last rejected candidate; otherwise the error is as before.
\<close>

theorem processFiles_admission:
  "batchFiles (processFiles gen files prev) =
     batchFiles prev @
     map (\<lambda>(k, f). new_item (gen k) f)
       (List.enumerate 0 (filter (\<lambda>f. \<not> rejected f) files)) \<and>
   map item_file (batchFiles (processFiles gen files prev)) =
     map item_file (batchFiles prev) @ filter (\<lambda>f. \<not> rejected f) files \<and>
   (rejected f \<longleftrightarrow>
      file_size f > 5242880 \<or>
      (\<not> isValidMime f \<and> \<not> isValidExt f \<and> file_type f \<noteq> [])) \<and>
   (list_ex rejected files \<longrightarrow>
      error (processFiles gen files prev) =
        Some (rejection_message (last (filter rejected files))) \<and>
      truthy (error (processFiles gen files prev))) \<and>
   (\<not> list_ex rejected files \<longrightarrow>
      error (processFiles gen files prev) = error prev)"
proof -
  have queue: "batchFiles (processFiles gen files prev) =
     batchFiles prev @
     map (\<lambda>(k, f). new_item (gen k) f)
       (List.enumerate 0 (filter (\<lambda>f. \<not> rejected f) files))"
    by (simp add: processFiles_eq)
  have files: "map item_file (batchFiles (processFiles gen files prev)) =
     map item_file (batchFiles prev) @ filter (\<lambda>f. \<not> rejected f) files"
    unfolding queue map_append item_file_new_items ..
  have rule: "rejected f \<longleftrightarrow>
      file_size f > 5242880 \<or>
      (\<not> isValidMime f \<and> \<not> isValidExt f \<and> file_type f \<noteq> [])"
    by (simp add: rejected_def too_large_def bad_type_def MAX_SIZE_def)
  have err: "list_ex rejected files \<longrightarrow>
      error (processFiles gen files prev) =
        Some (rejection_message (last (filter rejected files))) \<and>
      truthy (error (processFiles gen files prev))"
    by (simp add: processFiles_eq truthy_rejection)
  have none: "\<not> list_ex rejected files \<longrightarrow>
      error (processFiles gen files prev) = error prev"
    by (simp add: processFiles_eq)
  from queue files rule err none show ?thesis by blast
qed

theorem processFiles_admission_witness:
  "list_ex rejected [big_pdf, notes_txt, setup_exe, notes_txt] \<and>
   file_size big_pdf = 6 * 1024 * 1024 \<and>
   map item_file (batchFiles (processFiles ids [big_pdf, notes_txt, setup_exe, notes_txt]
      initial_state)) = [notes_txt, notes_txt] \<and>
   error (processFiles ids [big_pdf, notes_txt, setup_exe, notes_txt] initial_state) =
     Some (bad_type_message setup_exe) \<and>
   error (processFiles ids [big_pdf] initial_state) = Some (too_large_message big_pdf) \<and>
   batchFiles (processFiles ids [big_pdf] initial_state) = []"
proof -
  have size: "file_size big_pdf = 6 * 1024 * 1024"
    by (simp add: big_pdf_def)
  have batchFiles0: "batchFiles initial_state = []"
    by (simp add: initial_state_def)
  show ?thesis
    using processFiles_admission
            [of ids "[big_pdf, notes_txt, setup_exe, notes_txt]" initial_state big_pdf]
      processFiles_admission [of ids "[big_pdf]" initial_state big_pdf]
    by (simp add: rejected_big_pdf not_rejected_notes rejected_setup_exe
        rejection_message_def too_large_examples size batchFiles0 new_item_def)
qed




section \<open>The active file\<close>















section \<open>Properties of handleConvert\<close>

text \<open>
  C5. When the input text is empty after trimming in text mode, or the queue is empty in
  file mode, \<open>handleConvert\<close> sets the validation error and returns: \<open>convertContent\<close>
  is never called, and the queue, every item's status and the run status are as before.
\<close>

theorem handleConvert_validation:
  "(inputMode st = TextMode \<and> trim (inputText st) = []) \<or>
   (inputMode st = FileMode \<and> batchFiles st = []) \<Longrightarrow>
   calls (handleConvert convert st) = [] \<and>
   cur (handleConvert convert st) =
     st\<lparr>error := Some (if inputMode st = TextMode then enter_text else select_a_file)\<rparr> \<and>
   history (handleConvert convert st) = [cur (handleConvert convert st)] \<and>
   batchFiles (cur (handleConvert convert st)) = batchFiles st \<and>
   status (cur (handleConvert convert st)) = status st \<and>
   textResult (cur (handleConvert convert st)) = textResult st \<and>
   truthy (error (cur (handleConvert convert st)))"
  by (auto simp add: handleConvert_def setState_def start_run_def enter_text_def
      select_a_file_def)

theorem handleConvert_validation_witness:
  "inputMode (initial_state\<lparr>inputText := asc '' ''\<rparr>) = TextMode \<and>
   trim (inputText (initial_state\<lparr>inputText := asc '' ''\<rparr>)) = [] \<and>
   calls (handleConvert odd_fails (initial_state\<lparr>inputText := asc '' ''\<rparr>)) = [] \<and>
   error (cur (handleConvert odd_fails (initial_state\<lparr>inputText := asc '' ''\<rparr>))) =
     Some enter_text \<and>
   inputMode (initial_state\<lparr>inputMode := FileMode\<rparr>) = FileMode \<and>
   batchFiles (initial_state\<lparr>inputMode := FileMode\<rparr>) = [] \<and>
   calls (handleConvert odd_fails (initial_state\<lparr>inputMode := FileMode\<rparr>)) = [] \<and>
   error (cur (handleConvert odd_fails (initial_state\<lparr>inputMode := FileMode\<rparr>))) =
     Some select_a_file"
proof -
  have t: "inputMode (initial_state\<lparr>inputText := asc '' ''\<rparr>) = TextMode \<and>
      trim (inputText (initial_state\<lparr>inputText := asc '' ''\<rparr>)) = []"
    by (simp add: initial_state_def trim_def asc_def is_space_def)
  have f: "inputMode (initial_state\<lparr>inputMode := FileMode\<rparr>) = FileMode \<and>
      batchFiles (initial_state\<lparr>inputMode := FileMode\<rparr>) = []"
    by (simp add: initial_state_def)
  show ?thesis
    using handleConvert_validation [OF disjI1, OF t, of odd_fails]
      handleConvert_validation [OF disjI2, OF f, of odd_fails] t f
    by simp
qed

subsection \<open>The batch loop\<close>

lemma map_at_id:
  assumes "distinct (map item_id (pre @ f # rest))"
  shows "map (\<lambda>x. if item_id x = item_id f then g x else x) (pre @ f # rest) =
         pre @ g f # rest"
proof -
  have "\<forall>x \<in> set pre. item_id x \<noteq> item_id f" "\<forall>x \<in> set rest. item_id x \<noteq> item_id f"
    using assms by (auto simp add: image_iff)
  then have "map (\<lambda>x. if item_id x = item_id f then g x else x) pre = pre"
    "map (\<lambda>x. if item_id x = item_id f then g x else x) rest = rest"
    by (simp_all add: map_idI)
  then show ?thesis by simp
qed

lemma loop_body_calls:
  "calls (loop_body convert st i f r) =
     calls r @ (if item_status f = Success then []
                else [(i, FileInput (item_file f), targetFormat st,
                       Some (additionalInstructions st))])"
  by (simp add: loop_body_def setState_def log_call_def Let_def split: sum.splits)

lemma batchLoop_calls:
  "calls (batchLoop convert st i rest r) =
     calls r @
     map (\<lambda>(k, f). (k, FileInput (item_file f), targetFormat st,
                     Some (additionalInstructions st)))
       (filter (\<lambda>(k, f). item_status f \<noteq> Success) (List.enumerate i rest))"
  by (induction rest arbitrary: i r) (simp_all add: loop_body_calls)

lemma loop_body_queue:
  assumes "batchFiles (cur r) = pre @ f # rest"
    and "distinct (map item_id (pre @ f # rest))"
  shows "batchFiles (cur (loop_body convert st i f r)) = pre @ settled convert st i f # rest"
proof (cases "item_status f = Success")
  case True
  with assms show ?thesis by (simp add: loop_body_def settled_def)
next
  case False
  let ?p = "f\<lparr>item_status := Processing, item_error := None\<rparr>"
  have p: "batchFiles (markProcessing f (cur r)) = pre @ ?p # rest"
    using map_at_id [OF assms(2)] assms(1) by (simp add: markProcessing_def)
  have d: "distinct (map item_id (pre @ ?p # rest))"
    using assms(2) by simp
  have i: "item_id ?p = item_id f" by simp
  show ?thesis
  proof (cases "convert i (FileInput (item_file f)) (targetFormat st)
                  (Some (additionalInstructions st))")
    case (Inl msg)
    with False p map_at_id [OF d] show ?thesis
      by (simp add: loop_body_def settled_def setState_def log_call_def Let_def markError_def)
  next
    case (Inr result)
    with False p map_at_id [OF d] show ?thesis
      by (simp add: loop_body_def settled_def setState_def log_call_def Let_def markSuccess_def)
  qed
qed

lemma settled_id [simp]: "item_id (settled convert st k f) = item_id f"
  by (simp add: settled_def split: sum.splits)

lemma batchLoop_queue:
  "batchFiles (cur r) = pre @ rest \<Longrightarrow> distinct (map item_id (pre @ rest)) \<Longrightarrow>
   batchFiles (cur (batchLoop convert st i rest r)) =
     pre @ map (\<lambda>(k, f). settled convert st k f) (List.enumerate i rest)"
proof (induction rest arbitrary: i r pre)
  case Nil
  then show ?case by simp
next
  case (Cons f rest)
  have q: "batchFiles (cur (loop_body convert st i f r)) =
      (pre @ [settled convert st i f]) @ rest"
    using loop_body_queue [OF Cons.prems] by simp
  have d: "distinct (map item_id ((pre @ [settled convert st i f]) @ rest))"
    using Cons.prems(2) by simp
  show ?case
    using Cons.IH [OF q d] by simp
qed

lemma settled_consistent: "item_consistent f \<Longrightarrow> item_consistent (settled convert st k f)"
  by (cases "item_status f")
    (auto simp add: settled_def item_consistent_def split: sum.splits)

lemma processing_consistent:
  "item_consistent f \<Longrightarrow> item_status f \<noteq> Success \<Longrightarrow>
   item_consistent (f\<lparr>item_status := Processing, item_error := None\<rparr>)"
  by (cases "item_status f") (auto simp add: item_consistent_def)

lemma loop_body_consistent:
  assumes q: "batchFiles (cur r) = pre @ f # rest"
    and d: "distinct (map item_id (pre @ f # rest))"
    and c: "list_all item_consistent (pre @ f # rest)"
    and h: "list_all queue_consistent (history r)"
  shows "list_all queue_consistent (history (loop_body convert st i f r))"
proof (cases "item_status f = Success")
  case True
  with h show ?thesis by (simp add: loop_body_def)
next
  case False
  let ?p = "f\<lparr>item_status := Processing, item_error := None\<rparr>"
  let ?s1 = "markProcessing f (cur r)"
  have p: "batchFiles ?s1 = pre @ ?p # rest"
    using map_at_id [OF d] q by (simp add: markProcessing_def)
  have c1: "queue_consistent ?s1"
    using c processing_consistent [of f] False by (simp add: queue_consistent_def p)
  have "batchFiles (cur (loop_body convert st i f r)) = pre @ settled convert st i f # rest"
    by (rule loop_body_queue [OF q d])
  then have c2: "queue_consistent (cur (loop_body convert st i f r))"
    using c settled_consistent [of f] by (simp add: queue_consistent_def)
  have "history (loop_body convert st i f r) =
      history r @ [?s1, cur (loop_body convert st i f r)]"
    using False
    by (simp add: loop_body_def setState_def log_call_def Let_def split: sum.splits)
  with h c1 c2 show ?thesis by simp
qed

lemma batchLoop_consistent:
  "batchFiles (cur r) = pre @ rest \<Longrightarrow> distinct (map item_id (pre @ rest)) \<Longrightarrow>
   list_all item_consistent (pre @ rest) \<Longrightarrow> list_all queue_consistent (history r) \<Longrightarrow>
   list_all queue_consistent (history (batchLoop convert st i rest r))"
proof (induction rest arbitrary: i r pre)
  case Nil
  then show ?case by simp
next
  case (Cons f rest)
  have q: "batchFiles (cur (loop_body convert st i f r)) =
      (pre @ [settled convert st i f]) @ rest"
    using loop_body_queue [OF Cons.prems(1,2)] by simp
  have d: "distinct (map item_id ((pre @ [settled convert st i f]) @ rest))"
    using Cons.prems(2) by simp
  have c: "list_all item_consistent ((pre @ [settled convert st i f]) @ rest)"
    using Cons.prems(3) settled_consistent [of f] by simp
  have h: "list_all queue_consistent (history (loop_body convert st i f r))"
    by (rule loop_body_consistent [OF Cons.prems])
  show ?case
    using Cons.IH [OF q d c h] by simp
qed

text \<open>The shape of a run in file mode on a queue that is not empty.\<close>

lemma handleConvert_file_mode:
  assumes "inputMode st = FileMode" and "batchFiles st \<noteq> []"
  shows "handleConvert convert st =
     setState (\<lambda>prev. prev\<lparr>status := Idle\<rparr>)
       (batchLoop convert st 0 (batchFiles st)
          (setState (\<lambda>prev. prev\<lparr>status := Processing, error := None\<rparr>) (start_run st)))"
  using assms by (simp add: handleConvert_def)

lemma handleConvert_queue:
  assumes "inputMode st = FileMode" and "batchFiles st \<noteq> []"
    and "distinct (map item_id (batchFiles st))"
  shows "batchFiles (cur (handleConvert convert st)) =
     map (\<lambda>(k, f). settled convert st k f) (List.enumerate 0 (batchFiles st))"
proof -
  let ?init = "setState (\<lambda>prev. prev\<lparr>status := Processing, error := None\<rparr>) (start_run st)"
  have "batchFiles (cur ?init) = [] @ batchFiles st"
    by (simp add: setState_def start_run_def)
  moreover have "distinct (map item_id ([] @ batchFiles st))"
    using assms(3) by simp
  ultimately have "batchFiles (cur (batchLoop convert st 0 (batchFiles st) ?init)) =
      [] @ map (\<lambda>(k, f). settled convert st k f) (List.enumerate 0 (batchFiles st))"
    by (rule batchLoop_queue)
  then show ?thesis
    by (simp add: handleConvert_file_mode [OF assms(1,2)] setState_def)
qed

lemma handleConvert_calls:
  assumes "inputMode st = FileMode" and "batchFiles st \<noteq> []"
  shows "calls (handleConvert convert st) =
     map (\<lambda>(k, f). (k, FileInput (item_file f), targetFormat st,
                     Some (additionalInstructions st)))
       (filter (\<lambda>(k, f). item_status f \<noteq> Success) (List.enumerate 0 (batchFiles st)))"
  by (simp add: handleConvert_file_mode [OF assms] setState_def batchLoop_calls start_run_def)

lemma handleConvert_nth:
  assumes "inputMode st = FileMode" and "batchFiles st \<noteq> []"
    and "distinct (map item_id (batchFiles st))" and "k < length (batchFiles st)"
  shows "batchFiles (cur (handleConvert convert st)) ! k = settled convert st k (batchFiles st ! k)"
  using assms(4) by (simp add: handleConvert_queue [OF assms(1,2,3)] nth_enumerate_eq)

text \<open>
  C2. In file mode, on a queue that is not empty and whose identities are distinct, a run
  calls \<open>convertContent\<close> once for every item that has not succeeded yet, in queue
  order, whatever the calls answer. The item at index \<open>k\<close> ends as succeeded with the
  returned text when its call succeeds, and as failed with the error's message when its call
  fails; a failure stops nothing. The queue keeps its length, and the run status ends idle.
\<close>

theorem batch_partial_failure:
  assumes "inputMode st = FileMode" and "batchFiles st \<noteq> []"
    and "distinct (map item_id (batchFiles st))" and "k < length (batchFiles st)"
  shows "length (batchFiles (cur (handleConvert convert st))) = length (batchFiles st) \<and>
    calls (handleConvert convert st) =
      map (\<lambda>(j, f). (j, FileInput (item_file f), targetFormat st,
                      Some (additionalInstructions st)))
        (filter (\<lambda>(j, f). item_status f \<noteq> Success) (List.enumerate 0 (batchFiles st))) \<and>
    (item_status (batchFiles st ! k) = Success \<longrightarrow>
       batchFiles (cur (handleConvert convert st)) ! k = batchFiles st ! k) \<and>
    (item_status (batchFiles st ! k) \<noteq> Success \<longrightarrow>
       (\<forall>result.
          convert k (FileInput (item_file (batchFiles st ! k))) (targetFormat st)
            (Some (additionalInstructions st)) = Inr result \<longrightarrow>
          batchFiles (cur (handleConvert convert st)) ! k =
            (batchFiles st ! k)
              \<lparr>item_status := Success, item_result := Some result, item_error := None\<rparr>) \<and>
       (\<forall>msg.
          convert k (FileInput (item_file (batchFiles st ! k))) (targetFormat st)
            (Some (additionalInstructions st)) = Inl msg \<longrightarrow>
          batchFiles (cur (handleConvert convert st)) ! k =
            (batchFiles st ! k)\<lparr>item_status := Error, item_error := Some msg\<rparr>)) \<and>
    status (cur (handleConvert convert st)) = Idle"
proof -
  have len: "length (batchFiles (cur (handleConvert convert st))) = length (batchFiles st)"
    by (simp add: handleConvert_queue [OF assms(1,2,3)])
  have idle: "status (cur (handleConvert convert st)) = Idle"
    by (simp add: handleConvert_file_mode [OF assms(1,2)] setState_def)
  note nth = handleConvert_nth [OF assms, of convert]
  have skip: "item_status (batchFiles st ! k) = Success \<longrightarrow>
       batchFiles (cur (handleConvert convert st)) ! k = batchFiles st ! k"
    by (simp add: nth settled_def)
  have run: "item_status (batchFiles st ! k) \<noteq> Success \<longrightarrow>
       (\<forall>result.
          convert k (FileInput (item_file (batchFiles st ! k))) (targetFormat st)
            (Some (additionalInstructions st)) = Inr result \<longrightarrow>
          batchFiles (cur (handleConvert convert st)) ! k =
            (batchFiles st ! k)
              \<lparr>item_status := Success, item_result := Some result, item_error := None\<rparr>) \<and>
       (\<forall>msg.
          convert k (FileInput (item_file (batchFiles st ! k))) (targetFormat st)
            (Some (additionalInstructions st)) = Inl msg \<longrightarrow>
          batchFiles (cur (handleConvert convert st)) ! k =
            (batchFiles st ! k)\<lparr>item_status := Error, item_error := Some msg\<rparr>)"
    by (simp add: nth settled_def)
  from len handleConvert_calls [OF assms(1,2), of convert] skip run idle
  show ?thesis by blast
qed

lemma queued_facts:
  "inputMode queued = FileMode" "batchFiles queued \<noteq> []"
  "distinct (map item_id (batchFiles queued))" "length (batchFiles queued) = 3"
  "targetFormat queued = JSON" "additionalInstructions queued = []"
  "map item_status (batchFiles queued) = [Idle, Idle, Idle]"
  by (simp_all add: queued_def initial_state_def new_item_def asc_def)

theorem batch_partial_failure_witness:
  "inputMode queued = FileMode \<and> batchFiles queued \<noteq> [] \<and>
   distinct (map item_id (batchFiles queued)) \<and> 1 < length (batchFiles queued) \<and>
   item_status (batchFiles (cur (handleConvert odd_fails queued)) ! 1) = Error \<and>
   item_error (batchFiles (cur (handleConvert odd_fails queued)) ! 1) = Some (asc ''boom'') \<and>
   item_status (batchFiles (cur (handleConvert odd_fails queued)) ! 2) = Success \<and>
   item_result (batchFiles (cur (handleConvert odd_fails queued)) ! 2) =
     Some (asc ''converted'') \<and>
   map fst (calls (handleConvert odd_fails queued)) = [0, 1, 2] \<and>
   status (cur (handleConvert odd_fails queued)) = Idle"
proof -
  have k1: "Suc 0 < length (batchFiles queued)" and k2: "2 < length (batchFiles queued)"
    by (simp_all add: queued_facts)
  have s: "item_status (batchFiles queued ! Suc 0) = Idle"
    "item_status (batchFiles queued ! 2) = Idle"
    by (simp_all add: queued_def new_item_def)
  have o: "odd_fails (Suc 0) inp fmt ins = Inl (asc ''boom'')"
    "odd_fails 2 inp fmt ins = Inr (asc ''converted'')" for inp fmt ins
    by (simp_all add: odd_fails_def)
  note t1 = batch_partial_failure [OF queued_facts(1,2,3) k1, of odd_fails]
  note t2 = batch_partial_failure [OF queued_facts(1,2,3) k2, of odd_fails]
  have e1: "batchFiles (cur (handleConvert odd_fails queued)) ! Suc 0 =
      (batchFiles queued ! Suc 0)\<lparr>item_status := Error, item_error := Some (asc ''boom'')\<rparr>"
    using t1 by (simp add: s o)
  have e2: "batchFiles (cur (handleConvert odd_fails queued)) ! 2 =
      (batchFiles queued ! 2)
        \<lparr>item_status := Success, item_result := Some (asc ''converted''), item_error := None\<rparr>"
    using t2 by (simp add: s o)
  have c: "map fst (calls (handleConvert odd_fails queued)) = [0, 1, 2]"
    using t1 by (simp add: queued_def new_item_def)
  have i: "status (cur (handleConvert odd_fails queued)) = Idle"
    using t1 by simp
  show ?thesis
    using k1 by (simp add: queued_facts e1 e2 c i)
qed

lemma called_indices:
  "fst ` set (map (\<lambda>(j, f). (j, g f)) (filter (\<lambda>(j, f). P f) (List.enumerate 0 q))) =
     {k. k < length q \<and> P (q ! k)}"
  by (auto simp add: in_set_enumerate_eq image_iff)

text \<open>
  C1 (as the code has it). On a run in file mode, an item is skipped exactly when its status
  is succeeded: no call is made for it and, identities being distinct, it is left as it is.
  Every other item, pending, failed or left in progress, is processed again, in queue order.
  \<open>handleConvert\<close> takes no retry request.
\<close>

theorem rerun_skips_only_succeeded:
  assumes "inputMode st = FileMode" and "batchFiles st \<noteq> []"
  shows "calls (handleConvert convert st) =
      map (\<lambda>(j, f). (j, FileInput (item_file f), targetFormat st,
                      Some (additionalInstructions st)))
        (filter (\<lambda>(j, f). item_status f \<noteq> Success) (List.enumerate 0 (batchFiles st))) \<and>
    (k < length (batchFiles st) \<longrightarrow>
       (k \<in> fst ` set (calls (handleConvert convert st)) \<longleftrightarrow>
        item_status (batchFiles st ! k) \<noteq> Success)) \<and>
    (distinct (map item_id (batchFiles st)) \<longrightarrow> k < length (batchFiles st) \<longrightarrow>
     item_status (batchFiles st ! k) = Success \<longrightarrow>
       batchFiles (cur (handleConvert convert st)) ! k = batchFiles st ! k)"
proof -
  note c = handleConvert_calls [OF assms, of convert]
  have m: "k < length (batchFiles st) \<longrightarrow>
       (k \<in> fst ` set (calls (handleConvert convert st)) \<longleftrightarrow>
        item_status (batchFiles st ! k) \<noteq> Success)"
    unfolding c called_indices by simp
  have u: "distinct (map item_id (batchFiles st)) \<longrightarrow> k < length (batchFiles st) \<longrightarrow>
     item_status (batchFiles st ! k) = Success \<longrightarrow>
       batchFiles (cur (handleConvert convert st)) ! k = batchFiles st ! k"
    using handleConvert_nth [OF assms, of k convert] by (simp add: settled_def)
  from c m u show ?thesis by blast
qed

lemma after_pass_facts:
  "inputMode after_pass = FileMode" "batchFiles after_pass \<noteq> []"
  "distinct (map item_id (batchFiles after_pass))" "length (batchFiles after_pass) = 3"
  "map item_status (batchFiles after_pass) = [Success, Error, Idle]"
  by (simp_all add: after_pass_def initial_state_def new_item_def asc_def)

lemma after_pass_nth:
  "item_status (batchFiles after_pass ! 0) = Success"
  "item_status (batchFiles after_pass ! Suc 0) = Error"
  "item_status (batchFiles after_pass ! 2) = Idle"
  by (simp_all add: after_pass_def new_item_def)

theorem rerun_skips_only_succeeded_witness:
  "inputMode after_pass = FileMode \<and> batchFiles after_pass \<noteq> [] \<and>
   distinct (map item_id (batchFiles after_pass)) \<and> 0 < length (batchFiles after_pass) \<and>
   item_status (batchFiles after_pass ! 0) = Success \<and>
   0 \<notin> fst ` set (calls (handleConvert always_ok after_pass)) \<and>
   batchFiles (cur (handleConvert always_ok after_pass)) ! 0 = batchFiles after_pass ! 0 \<and>
   map fst (calls (handleConvert always_ok after_pass)) = [1, 2]"
proof -
  note t = rerun_skips_only_succeeded [OF after_pass_facts(1,2), of always_ok 0]
  have k: "0 < length (batchFiles after_pass)"
    by (simp add: after_pass_facts)
  have a: "0 \<notin> fst ` set (calls (handleConvert always_ok after_pass))"
    using t k after_pass_nth(1) by blast
  have b: "batchFiles (cur (handleConvert always_ok after_pass)) ! 0 =
      batchFiles after_pass ! 0"
    using t k after_pass_nth(1) after_pass_facts(3) by blast
  have c: "map fst (calls (handleConvert always_ok after_pass)) = [1, 2]"
    using t by (simp add: after_pass_def new_item_def)
  show ?thesis
    using k a b c by (simp add: after_pass_facts after_pass_nth)
qed

text \<open>
  C1 (as stated) fails: a failed item is not skipped. In \<open>after_pass\<close> the item at
  index 1 has failed; a plain second run calls \<open>convertContent\<close> for it and it ends
  succeeded.
\<close>

theorem failed_item_rerun_counterexample:
  "inputMode after_pass = FileMode \<and>
   item_status (batchFiles after_pass ! 1) = Error \<and>
   calls (handleConvert always_ok after_pass) =
     [(1, FileInput notes_txt, JSON, Some []), (2, FileInput notes_txt, JSON, Some [])] \<and>
   item_status (batchFiles (cur (handleConvert always_ok after_pass)) ! 1) = Success \<and>
   item_result (batchFiles (cur (handleConvert always_ok after_pass)) ! 1) =
     Some (asc ''again'')"
proof -
  have k: "Suc 0 < length (batchFiles after_pass)"
    by (simp add: after_pass_facts)
  have c: "calls (handleConvert always_ok after_pass) =
     [(1, FileInput notes_txt, JSON, Some []), (2, FileInput notes_txt, JSON, Some [])]"
    by (simp add: handleConvert_calls [OF after_pass_facts(1,2)])
      (simp add: after_pass_def new_item_def initial_state_def)
  have n: "batchFiles (cur (handleConvert always_ok after_pass)) ! Suc 0 =
      settled always_ok after_pass (Suc 0) (batchFiles after_pass ! Suc 0)"
    by (rule handleConvert_nth [OF after_pass_facts(1,2,3) k])
  have "item_status (settled always_ok after_pass (Suc 0) (batchFiles after_pass ! Suc 0)) =
      Success \<and>
    item_result (settled always_ok after_pass (Suc 0) (batchFiles after_pass ! Suc 0)) =
      Some (asc ''again'')"
    by (simp add: settled_def after_pass_nth always_ok_def)
  with n c show ?thesis
    by (simp add: after_pass_facts after_pass_nth)
qed

lemma settled_all_consistent:
  "list_all item_consistent xs \<Longrightarrow>
   list_all item_consistent (map (\<lambda>(k, f). settled convert st k f) (List.enumerate i xs))"
  by (induction xs arbitrary: i) (simp_all add: settled_consistent)

lemma handleConvert_consistent:
  assumes d: "distinct (map item_id (batchFiles st))" and c: "queue_consistent st"
  shows "list_all queue_consistent (history (handleConvert convert st))"
proof (cases "(inputMode st = TextMode \<and> trim (inputText st) = []) \<or>
              (inputMode st = FileMode \<and> batchFiles st = [])")
  case True
  with c show ?thesis
    by (auto simp add: handleConvert_def setState_def start_run_def queue_consistent_def)
next
  case valid: False
  show ?thesis
  proof (cases "inputMode st")
    case TextMode
    with valid c show ?thesis
      by (simp add: handleConvert_def setState_def start_run_def log_call_def
          queue_consistent_def Let_def split: sum.splits)
  next
    case FileMode
    with valid have ne: "batchFiles st \<noteq> []" by simp
    let ?init = "setState (\<lambda>prev. prev\<lparr>status := Processing, error := None\<rparr>) (start_run st)"
    let ?loop = "batchLoop convert st 0 (batchFiles st) ?init"
    have q0: "batchFiles (cur ?init) = [] @ batchFiles st"
      by (simp add: setState_def start_run_def)
    have d0: "distinct (map item_id ([] @ batchFiles st))"
      using d by simp
    have c0: "list_all item_consistent ([] @ batchFiles st)"
      using c by (simp add: queue_consistent_def)
    have h0: "list_all queue_consistent (history ?init)"
      using c by (simp add: setState_def start_run_def queue_consistent_def)
    have h: "list_all queue_consistent (history ?loop)"
      by (rule batchLoop_consistent [OF q0 d0 c0 h0])
    have "batchFiles (cur ?loop) =
        [] @ map (\<lambda>(k, f). settled convert st k f) (List.enumerate 0 (batchFiles st))"
      by (rule batchLoop_queue [OF q0 d0])
    then have "queue_consistent (cur ?loop)"
      using settled_all_consistent [OF c0 [simplified], of convert st 0]
      by (simp add: queue_consistent_def)
    with h show ?thesis
      by (simp add: handleConvert_file_mode [OF FileMode ne] setState_def
          queue_consistent_def)
  qed
qed

text \<open>
  C7. Let the identities of the queue be distinct and every item consistent when
  \<open>handleConvert\<close> starts. Then in every state that the run installs, every item has its
  result set exactly when it has succeeded and its error set exactly when it has failed;
  never both, and neither while it is pending or in progress.
\<close>

theorem items_consistent_throughout:
  assumes "distinct (map item_id (batchFiles st))"
    and "list_all item_consistent (batchFiles st)"
    and "s \<in> set (history (handleConvert convert st))"
    and "f \<in> set (batchFiles s)"
  shows "(item_result f \<noteq> None \<longleftrightarrow> item_status f = Success) \<and>
    (item_error f \<noteq> None \<longleftrightarrow> item_status f = Error) \<and>
    \<not> (item_result f \<noteq> None \<and> item_error f \<noteq> None) \<and>
    (item_status f = Idle \<or> item_status f = Processing \<longrightarrow>
       item_result f = None \<and> item_error f = None)"
proof -
  have "queue_consistent st"
    using assms(2) by (simp add: queue_consistent_def)
  then have "list_all queue_consistent (history (handleConvert convert st))"
    by (rule handleConvert_consistent [OF assms(1)])
  with assms(3) have "queue_consistent s"
    by (simp add: list_all_iff)
  with assms(4) have "item_consistent f"
    by (simp add: queue_consistent_def list_all_iff)
  then show ?thesis
    by (cases "item_status f") (auto simp add: item_consistent_def)
qed

lemma first_processing_in_history:
  "first_processing \<in> set (history (handleConvert odd_fails queued))"
  by (simp add: handleConvert_def first_processing_def queued_def initial_state_def
      loop_body_def setState_def log_call_def start_run_def new_item_def Let_def
      odd_fails_def)

theorem items_consistent_throughout_witness:
  "distinct (map item_id (batchFiles queued)) \<and>
   list_all item_consistent (batchFiles queued) \<and>
   first_processing \<in> set (history (handleConvert odd_fails queued)) \<and>
   batchFiles first_processing ! 0 \<in> set (batchFiles first_processing) \<and>
   item_status (batchFiles first_processing ! 0) = Processing \<and>
   item_result (batchFiles first_processing ! 0) = None \<and>
   item_error (batchFiles first_processing ! 0) = None"
proof -
  have c: "list_all item_consistent (batchFiles queued)"
    by (simp add: queued_def new_item_def item_consistent_def)
  have m: "batchFiles first_processing ! 0 \<in> set (batchFiles first_processing)"
    by (simp add: first_processing_def markProcessing_def queued_def)
  have p: "item_status (batchFiles first_processing ! 0) = Processing"
    by (simp add: first_processing_def markProcessing_def queued_def new_item_def)
  show ?thesis
    using items_consistent_throughout
            [OF queued_facts(3) c first_processing_in_history m] c m p
      queued_facts(3) first_processing_in_history
    by simp
qed

section \<open>Properties of convertContent\<close>

lemma build_request_text_file:
  assumes "isTextFile f" and "readAsText e f = Inr textContent"
  shows "build_request e (FileInput f) fmt ins =
     Inr \<lparr>req_parts =
            TextPart (asc ''Convert the following file content to '' @ format_value fmt @
                      asc ''. Filename: '' @ file_name f @ [10, 10] @ asc ''Content:'' @
                      [10] @ textContent) #
            (if has_instructions ins
             then [TextPart (instructions_text (case ins of None \<Rightarrow> [] | Some i \<Rightarrow> i))]
             else []),
          req_targetFormat = fmt, req_isPdfInput = False\<rparr>"
  using assms
  by (simp add: build_request_def content_parts_def readTextFile_def add_instructions_def
      Let_def)

lemma build_request_binary_file:
  assumes "\<not> isTextFile f" and "readAsDataURL e f = Inr (Some (c # cs))"
  shows "build_request e (FileInput f) fmt ins =
     Inr \<lparr>req_parts =
            [InlineData (at_index (split_on 44 (c # cs)) 1) (getMimeType f),
             TextPart (asc ''Analyze the content of this file and convert it to '' @
                       format_value fmt @ asc ''.'' @
                       (if has_instructions ins
                        then instructions_text (case ins of None \<Rightarrow> [] | Some i \<Rightarrow> i)
                        else []))],
          req_targetFormat = fmt,
          req_isPdfInput = (getMimeType f = asc ''application/pdf'')\<rparr>"
  using assms
  by (simp add: build_request_def content_parts_def fileToGenerativePart_def
      add_instructions_def Let_def)

lemma binary_mime:
  "\<not> isTextFile f \<Longrightarrow>
   (file_type f \<noteq> [] \<and> file_type f \<noteq> asc ''application/octet-stream'' \<and>
    getMimeType f = file_type f) \<or>
   ((file_type f = [] \<or> file_type f = asc ''application/octet-stream'') \<and>
    (ext_of f = Some (asc ''pdf'') \<and> getMimeType f = asc ''application/pdf'' \<or>
     (ext_of f = Some (asc ''doc'') \<or> ext_of f = Some (asc ''docx'')) \<and>
       getMimeType f =
         asc ''application/vnd.openxmlformats-officedocument.wordprocessingml.document'' \<or>
     ext_of f = Some (asc ''png'') \<and> getMimeType f = asc ''image/png'' \<or>
     (ext_of f = Some (asc ''jpg'') \<or> ext_of f = Some (asc ''jpeg'')) \<and>
       getMimeType f = asc ''image/jpeg'' \<or>
     ext_of f = Some (asc ''webp'') \<and> getMimeType f = asc ''image/webp'' \<or>
     ext_of f = Some (asc ''heic'') \<and> getMimeType f = asc ''image/heic''))"
  by (auto simp add: isTextFile_def getMimeType_def textMimes_def asc_def Let_def
      split: if_splits)

lemma text_file_no_inline:
  assumes "isTextFile f" and "build_request e (FileInput f) fmt ins = Inr req"
  shows "\<not> list_ex is_inline (req_parts req)"
proof (cases "readAsText e f")
  case (Inl ev)
  with assms show ?thesis
    by (simp add: build_request_def content_parts_def readTextFile_def)
next
  case (Inr textContent)
  show ?thesis
    using assms(2) unfolding build_request_text_file [OF assms(1) Inr]
    by (auto split: if_splits)
qed

text \<open>
  C9. \<open>convertContent\<close> chooses the transport by the kind of file. For a file that
  \<open>isTextFile\<close> takes for text, the text read from it is sent inside the first text
  part, and no part of the request is inline data. For any other file the request starts
  with an inline data part holding the base64 payload of the data URL read from it (what
  follows the first comma), tagged with \<open>getMimeType\<close> of the file: the declared type
  when there is one (other than \<open>application/octet-stream\<close>), and otherwise the type
  that belongs to the extension. \<open>generateContent\<close> is called with exactly this request.
\<close>

theorem content_transport:
  "(isTextFile f \<longrightarrow> readAsText e f = Inr textContent \<longrightarrow>
      build_request e (FileInput f) fmt ins =
        Inr \<lparr>req_parts =
               TextPart (asc ''Convert the following file content to '' @ format_value fmt @
                         asc ''. Filename: '' @ file_name f @ [10, 10] @ asc ''Content:'' @
                         [10] @ textContent) #
               (if has_instructions ins
                then [TextPart (instructions_text (case ins of None \<Rightarrow> [] | Some i \<Rightarrow> i))]
                else []),
             req_targetFormat = fmt, req_isPdfInput = False\<rparr>) \<and>
   (isTextFile f \<longrightarrow> build_request e (FileInput f) fmt ins = Inr req \<longrightarrow>
      \<not> list_ex is_inline (req_parts req)) \<and>
   (\<not> isTextFile f \<longrightarrow> readAsDataURL e f = Inr (Some (c # cs)) \<longrightarrow>
      build_request e (FileInput f) fmt ins =
        Inr \<lparr>req_parts =
               [InlineData (at_index (split_on 44 (c # cs)) 1) (getMimeType f),
                TextPart (asc ''Analyze the content of this file and convert it to '' @
                          format_value fmt @ asc ''.'' @
                          (if has_instructions ins
                           then instructions_text (case ins of None \<Rightarrow> [] | Some i \<Rightarrow> i)
                           else []))],
             req_targetFormat = fmt,
             req_isPdfInput = (getMimeType f = asc ''application/pdf'')\<rparr>) \<and>
   (\<not> isTextFile f \<longrightarrow>
      (file_type f \<noteq> [] \<and> file_type f \<noteq> asc ''application/octet-stream'' \<and>
       getMimeType f = file_type f) \<or>
      ((file_type f = [] \<or> file_type f = asc ''application/octet-stream'') \<and>
       (ext_of f = Some (asc ''pdf'') \<and> getMimeType f = asc ''application/pdf'' \<or>
        (ext_of f = Some (asc ''doc'') \<or> ext_of f = Some (asc ''docx'')) \<and>
          getMimeType f =
            asc ''application/vnd.openxmlformats-officedocument.wordprocessingml.document'' \<or>
        ext_of f = Some (asc ''png'') \<and> getMimeType f = asc ''image/png'' \<or>
        (ext_of f = Some (asc ''jpg'') \<or> ext_of f = Some (asc ''jpeg'')) \<and>
          getMimeType f = asc ''image/jpeg'' \<or>
        ext_of f = Some (asc ''webp'') \<and> getMimeType f = asc ''image/webp'' \<or>
        ext_of f = Some (asc ''heic'') \<and> getMimeType f = asc ''image/heic''))) \<and>
   (build_request e (FileInput f) fmt ins = Inr req \<longrightarrow>
      convertContent e (FileInput f) fmt ins =
        (case generateContent e req of
           Inl err \<Rightarrow> Inl (catch_message err)
         | Inr t \<Rightarrow> Inr (or_str t no_content)))"
proof -
  have sent: "build_request e (FileInput f) fmt ins = Inr req \<longrightarrow>
      convertContent e (FileInput f) fmt ins =
        (case generateContent e req of
           Inl err \<Rightarrow> Inl (catch_message err)
         | Inr t \<Rightarrow> Inr (or_str t no_content))"
    by (simp add: convertContent_def)
  from build_request_text_file [of f e textContent fmt ins]
    text_file_no_inline [of f e fmt ins req]
    build_request_binary_file [of f e c cs fmt ins]
    binary_mime [of f] sent
  show ?thesis by blast
qed

lemma notes_is_text: "isTextFile notes_txt"
  by (simp add: isTextFile_def getMimeType_def notes_txt_def textMimes_def asc_def)

lemma small_pdf_mime: "getMimeType small_pdf = asc ''application/pdf''"
  by (simp add: getMimeType_def small_pdf_def ext_of_def toLowerCase_def lower_unit_def
      asc_def)

lemma small_pdf_binary: "\<not> isTextFile small_pdf"
  unfolding isTextFile_def small_pdf_mime
  by (simp add: small_pdf_def ext_of_def toLowerCase_def lower_unit_def textMimes_def
      textExts_def asc_def)

theorem content_transport_witness:
  "isTextFile notes_txt \<and> readAsText silent_env notes_txt = Inr (asc ''a;b'') \<and>
   build_request silent_env (FileInput notes_txt) CSV None =
     Inr \<lparr>req_parts =
            [TextPart (asc ''Convert the following file content to CSV. Filename: notes.txt'' @
                       [10, 10] @ asc ''Content:'' @ [10] @ asc ''a;b'')],
          req_targetFormat = CSV, req_isPdfInput = False\<rparr> \<and>
   \<not> isTextFile small_pdf \<and>
   readAsDataURL silent_env small_pdf =
     Inr (Some (asc ''data:application/pdf;base64,JVBERi0='')) \<and>
   build_request silent_env (FileInput small_pdf) CSV None =
     Inr \<lparr>req_parts =
            [InlineData (Some (asc ''JVBERi0='')) (asc ''application/pdf''),
             TextPart (asc ''Analyze the content of this file and convert it to CSV.'')],
          req_targetFormat = CSV, req_isPdfInput = True\<rparr>"
proof -
  have r: "readAsText silent_env notes_txt = Inr (asc ''a;b'')"
    by (simp add: silent_env_def)
  have u: "readAsDataURL silent_env small_pdf =
      Inr (Some (100 # asc ''ata:application/pdf;base64,JVBERi0=''))"
    by (simp add: silent_env_def asc_def)
  have n: "\<not> has_instructions None"
    by (simp add: has_instructions_def)
  have a: "build_request silent_env (FileInput notes_txt) CSV None =
     Inr \<lparr>req_parts =
            [TextPart (asc ''Convert the following file content to CSV. Filename: notes.txt'' @
                       [10, 10] @ asc ''Content:'' @ [10] @ asc ''a;b'')],
          req_targetFormat = CSV, req_isPdfInput = False\<rparr>"
    using content_transport [of notes_txt silent_env "asc ''a;b''" CSV None] notes_is_text r
    by (simp add: n notes_txt_def asc_def)
  have b: "build_request silent_env (FileInput small_pdf) CSV None =
     Inr \<lparr>req_parts =
            [InlineData (Some (asc ''JVBERi0='')) (asc ''application/pdf''),
             TextPart (asc ''Analyze the content of this file and convert it to CSV.'')],
          req_targetFormat = CSV, req_isPdfInput = True\<rparr>"
    using content_transport
            [of small_pdf silent_env _ CSV None _ 100 "asc ''ata:application/pdf;base64,JVBERi0=''"]
      small_pdf_binary u
    by (simp add: n small_pdf_mime at_index_def asc_def)
  from notes_is_text r a small_pdf_binary u b show ?thesis
    by (simp add: asc_def)
qed

lemma or_str_nonempty: "d \<noteq> [] \<Longrightarrow> or_str t d \<noteq> []"
  by (cases "(t, d)" rule: or_str.cases) simp_all

lemma catch_message_nonempty: "catch_message err \<noteq> []"
  by (simp add: catch_message_def transport_failure_def invalid_key_def or_str_nonempty
      conversion_failed_def asc_def)

lemma convertContent_nonempty: "convertContent e inp fmt ins = Inr r \<Longrightarrow> r \<noteq> []"
  by (auto simp add: convertContent_def or_str_nonempty no_content_def
      split: sum.splits)

lemma convertContent_error_nonempty: "convertContent e inp fmt ins = Inl m \<Longrightarrow> m \<noteq> []"
  by (auto simp add: convertContent_def catch_message_nonempty split: sum.splits)

lemma loop_body_has_text:
  assumes "\<forall>k inp fmt ins r. convert k inp fmt ins = Inr r \<longrightarrow> r \<noteq> []"
    and "list_all has_text (batchFiles (cur r))"
  shows "list_all has_text (batchFiles (cur (loop_body convert st i f r)))"
proof (cases "convert i (FileInput (item_file f)) (targetFormat st)
                (Some (additionalInstructions st))")
  case (Inl msg)
  with assms(2) show ?thesis
    by (auto simp add: loop_body_def setState_def log_call_def Let_def markProcessing_def
        markError_def list_all_iff has_text_def)
next
  case (Inr result)
  then have "result \<noteq> []" using assms(1) by blast
  then have "truthy (Some result)" by (cases result) simp_all
  with Inr assms(2) show ?thesis
    by (auto simp add: loop_body_def setState_def log_call_def Let_def markProcessing_def
        markSuccess_def list_all_iff has_text_def)
qed

lemma batchLoop_has_text:
  assumes "\<forall>k inp fmt ins r. convert k inp fmt ins = Inr r \<longrightarrow> r \<noteq> []"
  shows "list_all has_text (batchFiles (cur r)) \<Longrightarrow>
    list_all has_text (batchFiles (cur (batchLoop convert st i rest r)))"
  by (induction rest arbitrary: i r) (simp_all add: loop_body_has_text [OF assms])

lemma handleConvert_has_text:
  assumes "\<forall>k inp fmt ins r. convert k inp fmt ins = Inr r \<longrightarrow> r \<noteq> []"
    and "list_all has_text (batchFiles st)"
  shows "list_all has_text (batchFiles (cur (handleConvert convert st)))"
proof -
  have "list_all has_text (batchFiles (cur
      (setState (\<lambda>prev. prev\<lparr>status := Processing, error := None\<rparr>) (start_run st))))"
    using assms(2) by (simp add: setState_def start_run_def)
  then have "list_all has_text (batchFiles (cur (batchLoop convert st 0 (batchFiles st)
      (setState (\<lambda>prev. prev\<lparr>status := Processing, error := None\<rparr>) (start_run st)))))"
    by (rule batchLoop_has_text [OF assms(1)])
  with assms(2) show ?thesis
    by (simp add: handleConvert_def setState_def start_run_def log_call_def Let_def
        split: sum.splits)
qed

text \<open>
  C10. \<open>convertContent\<close> never settles with the empty string: when the model's answer
  has no text, or the empty text, it settles with the fixed message \<open>no_content\<close>, and
  otherwise with the model's text. So a batch run of the application keeps every succeeded
  item's result non-empty.
\<close>

theorem convertContent_never_empty:
  "(convertContent e inp fmt ins = Inr r \<longrightarrow> r \<noteq> []) \<and>
   (build_request e inp fmt ins = Inr req \<longrightarrow> generateContent e req = Inr t \<longrightarrow>
    (t = None \<or> t = Some []) \<longrightarrow>
      convertContent e inp fmt ins = Inr no_content) \<and>
   (build_request e inp fmt ins = Inr req \<longrightarrow> generateContent e req = Inr (Some (c # cs)) \<longrightarrow>
      convertContent e inp fmt ins = Inr (c # cs)) \<and>
   no_content = [0x672A, 0x751F, 0x6210, 0x4EFB, 0x4F55, 0x5185, 0x5BB9, 0x3002] \<and>
   (list_all has_text (batchFiles st) \<longrightarrow>
      list_all has_text (batchFiles (cur (handleConvert (app_converter envs) st))))"
proof -
  have a: "convertContent e inp fmt ins = Inr r \<longrightarrow> r \<noteq> []"
    using convertContent_nonempty by blast
  have b: "build_request e inp fmt ins = Inr req \<longrightarrow> generateContent e req = Inr t \<longrightarrow>
    (t = None \<or> t = Some []) \<longrightarrow> convertContent e inp fmt ins = Inr no_content"
    by (auto simp add: convertContent_def)
  have c: "build_request e inp fmt ins = Inr req \<longrightarrow>
      generateContent e req = Inr (Some (c # cs)) \<longrightarrow>
      convertContent e inp fmt ins = Inr (c # cs)"
    by (simp add: convertContent_def)
  have d: "list_all has_text (batchFiles st) \<longrightarrow>
      list_all has_text (batchFiles (cur (handleConvert (app_converter envs) st)))"
  proof -
    have "\<forall>k inp fmt ins r. app_converter envs k inp fmt ins = Inr r \<longrightarrow> r \<noteq> []"
      using convertContent_nonempty by (simp add: app_converter_def)
    then show ?thesis
      using handleConvert_has_text [of "app_converter envs" st] by blast
  qed
  from a b c d show ?thesis
    by (simp add: no_content_def)
qed

lemma hello_request:
  "build_request e (TextInput (asc ''hello'')) CSV None =
     Inr \<lparr>req_parts = [TextPart (asc ''Convert the following text content to CSV:'' @
                                    [10, 10] @ asc ''hello'')],
          req_targetFormat = CSV, req_isPdfInput = False\<rparr>"
  by (simp add: build_request_def content_parts_def add_instructions_def has_instructions_def
      Let_def asc_def)

theorem convertContent_never_empty_witness:
  "convertContent silent_env (TextInput (asc ''hello'')) CSV None = Inr no_content \<and>
   no_content \<noteq> [] \<and>
   convertContent csv_env (TextInput (asc ''hello'')) CSV None = Inr (asc ''a,b'') \<and>
   list_all has_text (batchFiles queued) \<and>
   list_all has_text (batchFiles (cur (handleConvert (app_converter (\<lambda>i. silent_env)) queued)))"
proof -
  let ?req = "\<lparr>req_parts = [TextPart (asc ''Convert the following text content to CSV:'' @
                                    [10, 10] @ asc ''hello'')],
          req_targetFormat = CSV, req_isPdfInput = False\<rparr>"
  note t = convertContent_never_empty
    [of silent_env "TextInput (asc ''hello'')" CSV None no_content ?req None 97 "asc '',b''"
      queued "\<lambda>i. silent_env"]
  note u = convertContent_never_empty
    [of csv_env "TextInput (asc ''hello'')" CSV None "asc ''a,b''" ?req "Some (asc ''a,b'')"
      97 "asc '',b''" queued "\<lambda>i. csv_env"]
  have g: "generateContent silent_env ?req = Inr None"
    by (simp add: silent_env_def)
  have a: "convertContent silent_env (TextInput (asc ''hello'')) CSV None = Inr no_content"
    using t hello_request [of silent_env] g by blast
  have n: "no_content \<noteq> []"
    using t a by blast
  have h: "generateContent csv_env ?req = Inr (Some (97 # asc '',b''))"
    by (simp add: csv_env_def asc_def)
  have b: "convertContent csv_env (TextInput (asc ''hello'')) CSV None = Inr (97 # asc '',b'')"
    using u hello_request [of csv_env] h by blast
  have q: "list_all has_text (batchFiles queued)"
    by (simp add: queued_def has_text_def new_item_def)
  have r: "list_all has_text
      (batchFiles (cur (handleConvert (app_converter (\<lambda>i. silent_env)) queued)))"
    using t q by blast
  from a n b q r show ?thesis
    by (simp add: asc_def)
qed

end
